theory Spec2Isabelle
  imports Main "HOL-Library.Word"
begin

section \<open>The critical-pin shim of HyperAlloc (CriticalGC.c)\<close>

text \<open>
  The source file is two JNI entry points around one static variable:
  \<^verbatim>\<open>
  static jbyte* sink;

  JNIEXPORT void JNICALL Java_..._CriticalGC_acquire(JNIEnv* env, jclass klass, jbyteArray arr) {
     sink = (*env)->GetPrimitiveArrayCritical(env, arr, 0);
  }

  JNIEXPORT void JNICALL Java_..._CriticalGC_release(JNIEnv* env, jclass klass, jbyteArray arr) {
     (*env)->ReleasePrimitiveArrayCritical(env, arr, sink, 0);
  }
  \<close>
  Both functions return \<open>void\<close>; everything they do is an effect on \<open>sink\<close> and on the
  managed runtime behind \<open>env\<close>. The embedding passes both explicitly.
\<close>

subsection \<open>JNI types\<close>

text \<open>
  A native address is a natural number and \<open>NULL\<close> is \<open>0\<close> (the source does no
  pointer arithmetic). A \<open>jbyte\<close> is a signed 8-bit value, a \<open>jint\<close> a 32-bit one.
  \<open>jclass\<close> and \<open>jbyteArray\<close> are opaque references handed out by the runtime.
\<close>

type_synonym ptr = nat
type_synonym jbyte = "8 word"
type_synonym jint = "32 word"
type_synonym jobject = nat

text \<open>
  \<open>JNIEnv\<close> is a pointer to the runtime's function table; the shim calls two of its
  members through \<open>(*env)->\<close>. The table is declared in \<open>jni.h\<close>, outside the
  repository, so the two members are parameters of the model: functions on a runtime
  state of any type \<open>'j\<close>. \<open>GetPrimitiveArrayCritical\<close> takes the array and the
  \<open>isCopy\<close> out-pointer and returns a pointer; \<open>ReleasePrimitiveArrayCritical\<close> takes
  the array, the pointer and a mode and returns nothing.
\<close>

record 'j JNIEnv =
  GetPrimitiveArrayCritical :: "jobject \<Rightarrow> ptr \<Rightarrow> 'j \<Rightarrow> ptr \<times> 'j"
  ReleasePrimitiveArrayCritical :: "jobject \<Rightarrow> ptr \<Rightarrow> jint \<Rightarrow> 'j \<Rightarrow> 'j"

subsection \<open>The process state and the two entry points\<close>

text \<open>
  The state of the process as far as the shim is concerned: the static variable
  \<open>sink\<close> and the state of the managed runtime.
\<close>

record 'j process =
  sink :: ptr
  jvm :: 'j

text \<open>
  \<open>static jbyte* sink;\<close> has static storage duration and no initialiser, so C
  initialises it to the null pointer before any entry point can run.
\<close>

definition initial :: "'j \<Rightarrow> 'j process" where
  "initial j = \<lparr>sink = 0, jvm = j\<rparr>"

definition Java_com_amazon_corretto_benchmark_hyperalloc_CriticalGC_acquire ::
  "'j JNIEnv \<Rightarrow> jobject \<Rightarrow> jobject \<Rightarrow> 'j process \<Rightarrow> 'j process" where
  "Java_com_amazon_corretto_benchmark_hyperalloc_CriticalGC_acquire env klass arr s =
     (case GetPrimitiveArrayCritical env arr 0 (jvm s) of
        (p, j') \<Rightarrow> \<lparr>sink = p, jvm = j'\<rparr>)"

definition Java_com_amazon_corretto_benchmark_hyperalloc_CriticalGC_release ::
  "'j JNIEnv \<Rightarrow> jobject \<Rightarrow> jobject \<Rightarrow> 'j process \<Rightarrow> 'j process" where
  "Java_com_amazon_corretto_benchmark_hyperalloc_CriticalGC_release env klass arr s =
     \<lparr>sink = sink s, jvm = ReleasePrimitiveArrayCritical env arr (sink s) 0 (jvm s)\<rparr>"

abbreviation acquire :: "'j JNIEnv \<Rightarrow> jobject \<Rightarrow> jobject \<Rightarrow> 'j process \<Rightarrow> 'j process" where
  "acquire \<equiv> Java_com_amazon_corretto_benchmark_hyperalloc_CriticalGC_acquire"

abbreviation release :: "'j JNIEnv \<Rightarrow> jobject \<Rightarrow> jobject \<Rightarrow> 'j process \<Rightarrow> 'j process" where
  "release \<equiv> Java_com_amazon_corretto_benchmark_hyperalloc_CriticalGC_release"

subsection \<open>Callers\<close>

text \<open>
  The managed side calls the two native methods in any order. A caller is a list of
  calls, each with the class token and the array handle the runtime passes in.
\<close>

datatype call = Acquire jobject jobject | Release jobject jobject

fun step :: "'j JNIEnv \<Rightarrow> call \<Rightarrow> 'j process \<Rightarrow> 'j process" where
  "step env (Acquire klass arr) s = acquire env klass arr s"
| "step env (Release klass arr) s = release env klass arr s"

fun run :: "'j JNIEnv \<Rightarrow> call list \<Rightarrow> 'j process \<Rightarrow> 'j process" where
  "run env [] s = s"
| "run env (c # cs) s = run env cs (step env c s)"

text \<open>A caller that only releases: one \<open>Release\<close> per (class token, array) pair.\<close>

definition releases :: "(jobject \<times> jobject) list \<Rightarrow> call list" where
  "releases rels = map (\<lambda>(klass, arr). Release klass arr) rels"

subsection \<open>Observing the calls into the runtime\<close>

text \<open>
  To state which arguments reach the runtime, any function table can be wrapped so that
  it also records each call: the arguments, and for the pin primitive the pointer it
  returned. The wrapped table behaves as the original one on the runtime state.
\<close>

datatype jni_call =
  Get_call jobject ptr ptr
| Release_call jobject ptr jint

definition logged :: "'j JNIEnv \<Rightarrow> ('j \<times> jni_call list) JNIEnv" where
  "logged env =
     \<lparr>GetPrimitiveArrayCritical = (\<lambda>arr isCopy (j, calls).
        (case GetPrimitiveArrayCritical env arr isCopy j of
           (p, j') \<Rightarrow> (p, (j', calls @ [Get_call arr isCopy p])))),
      ReleasePrimitiveArrayCritical = (\<lambda>arr carray mode (j, calls).
        (ReleasePrimitiveArrayCritical env arr carray mode j,
         calls @ [Release_call arr carray mode]))\<rparr>"

text \<open>The calls a caller makes into the runtime when started in state \<open>s\<close>.\<close>

definition trace :: "'j JNIEnv \<Rightarrow> call list \<Rightarrow> 'j process \<Rightarrow> jni_call list" where
  "trace env cs s = snd (jvm (run (logged env) cs \<lparr>sink = sink s, jvm = (jvm s, [])\<rparr>))"

text \<open>Dropping the record of calls gives back a state of the unwrapped program.\<close>

definition unlogged :: "('j \<times> jni_call list) process \<Rightarrow> 'j process" where
  "unlogged s = \<lparr>sink = sink s, jvm = fst (jvm s)\<rparr>"

text \<open>
  \<open>unpins_match p calls\<close>: every unpin call in \<open>calls\<close> carries the pointer returned
  by the latest pin call before it, or \<open>p\<close> when there is none.
\<close>

fun unpins_match :: "ptr \<Rightarrow> jni_call list \<Rightarrow> bool" where
  "unpins_match p [] = True"
| "unpins_match p (Get_call arr isCopy r # calls) = unpins_match r calls"
| "unpins_match p (Release_call arr carray mode # calls) = (carray = p \<and> unpins_match p calls)"

text \<open>The pointer returned by the latest pin call in \<open>calls\<close>, or \<open>p\<close> when there is none.\<close>

fun last_pin :: "ptr \<Rightarrow> jni_call list \<Rightarrow> ptr" where
  "last_pin p [] = p"
| "last_pin p (Get_call arr isCopy r # calls) = last_pin r calls"
| "last_pin p (Release_call arr carray mode # calls) = last_pin p calls"

text \<open>
  The relation between the slot and the recorded calls that every call of the shim keeps:
  the unpin calls so far match, and the slot holds the latest pin result.
\<close>

definition slot_tracks_log :: "ptr \<Rightarrow> ('j \<times> jni_call list) process \<Rightarrow> bool" where
  "slot_tracks_log p s = (unpins_match p (snd (jvm s)) \<and> sink s = last_pin p (snd (jvm s)))"

text \<open>The pointers handed to the unpin primitive, in order.\<close>

fun unpin_ptrs :: "jni_call list \<Rightarrow> ptr list" where
  "unpin_ptrs [] = []"
| "unpin_ptrs (Get_call arr isCopy r # calls) = unpin_ptrs calls"
| "unpin_ptrs (Release_call arr carray mode # calls) = carray # unpin_ptrs calls"

text \<open>The pointers returned by the pin primitive, in order.\<close>

fun pin_results :: "jni_call list \<Rightarrow> ptr list" where
  "pin_results [] = []"
| "pin_results (Get_call arr isCopy r # calls) = r # pin_results calls"
| "pin_results (Release_call arr carray mode # calls) = pin_results calls"

subsection \<open>A reference runtime\<close>

text \<open>
  Modelled from the spec: the host runtime's pin and unpin primitives, which are the
  runtime's code and not part of the repository. The spec says: an array handle is an
  opaque reference to a runtime-managed contiguous byte buffer; pinning yields a raw
  address aliasing the handle's backing storage, or a null pointer if the handle is
  invalid; unpinning must be given the pointer obtained by the pin and is undefined
  otherwise; a pin that is never released stays outstanding.

  The runtime state is a byte-addressed store, the table of live arrays (data address and
  length), the outstanding pins, and a flag recording that the runtime was used outside
  its contract.
\<close>

record runtime =
  memory :: "ptr \<Rightarrow> jbyte"
  arrays :: "jobject \<rightharpoonup> ptr \<times> nat"
  pinned :: "(jobject \<times> ptr) list"
  undefined_behaviour :: bool

text \<open>
  Modelled from the spec: the pin primitive. A valid handle yields the address of its
  backing storage and one more outstanding pin; an invalid handle yields the null pointer.
  The \<open>isCopy\<close> out-pointer is not used.
\<close>

definition pin :: "jobject \<Rightarrow> ptr \<Rightarrow> runtime \<Rightarrow> ptr \<times> runtime" where
  "pin arr isCopy j =
     (case arrays j arr of
        None \<Rightarrow> (0, j)
      | Some (base, len) \<Rightarrow> (base, j\<lparr>pinned := (arr, base) # pinned j\<rparr>))"

text \<open>
  Modelled from the spec: the unpin primitive. Given an array and the pointer of one of
  its outstanding pins, it ends that pin; anything else is outside the contract. The
  storage is not touched: writes made through the pointer are already in the array.
\<close>

definition unpin :: "jobject \<Rightarrow> ptr \<Rightarrow> jint \<Rightarrow> runtime \<Rightarrow> runtime" where
  "unpin arr carray mode j =
     (if (arr, carray) \<in> set (pinned j)
      then j\<lparr>pinned := remove1 (arr, carray) (pinned j)\<rparr>
      else j\<lparr>undefined_behaviour := True\<rparr>)"

definition reference_runtime :: "runtime JNIEnv" where
  "reference_runtime =
     \<lparr>GetPrimitiveArrayCritical = pin, ReleasePrimitiveArrayCritical = unpin\<rparr>"

text \<open>The bytes of an array as the managed side sees them, through its handle.\<close>

definition contents :: "runtime \<Rightarrow> jobject \<Rightarrow> jbyte list option" where
  "contents j arr =
     (case arrays j arr of
        None \<Rightarrow> None
      | Some (base, len) \<Rightarrow> Some (map (\<lambda>i. memory j (base + i)) [0..<len]))"

text \<open>Native code reading \<open>n\<close> bytes at a pointer, and storing one byte at an offset from it.\<close>

definition peek :: "runtime \<Rightarrow> ptr \<Rightarrow> nat \<Rightarrow> jbyte list" where
  "peek j p n = map (\<lambda>i. memory j (p + i)) [0..<n]"

definition poke :: "ptr \<Rightarrow> nat \<Rightarrow> jbyte \<Rightarrow> runtime \<Rightarrow> runtime" where
  "poke p off v j = j\<lparr>memory := (memory j)(p + off := v)\<rparr>"

text \<open>
  Modelled from the spec: its two states, read off the runtime. The shim is Pinned while a
  pin is outstanding and Unpinned otherwise.
\<close>

datatype pin_state = Unpinned | Pinned

definition shim_state :: "runtime process \<Rightarrow> pin_state" where
  "shim_state s = (if pinned (jvm s) = [] then Unpinned else Pinned)"

text \<open>
  A runtime for examples: no pins, all memory zero except array 3, which is 16 bytes at
  address 4096 holding 1, 2, ..., 16; array 5 is 4 bytes at address 8192 holding zeros.
\<close>

definition pattern :: "jbyte list" where
  "pattern = [1, 2, 3, 4, 5, 6, 7, 8, 9, 10, 11, 12, 13, 14, 15, 16]"

definition jvm0 :: runtime where
  "jvm0 =
     \<lparr>memory = (\<lambda>a. if 4096 \<le> a \<and> a < 4112 then pattern ! (a - 4096) else 0),
      arrays = [3 \<mapsto> (4096, 16), 5 \<mapsto> (8192, 4)],
      pinned = [],
      undefined_behaviour = False\<rparr>"

subsection \<open>A runtime that hands out copies\<close>

text \<open>
  Modelled from the spec: a second runtime, for the spec's scenario in which releasing
  makes a write through the pointer show in the array. The contract of the pin primitive
  in \<open>jni.h\<close> lets the runtime hand out a copy of the array instead of its storage. The
  arrays are then reachable through their handles only; pinning copies the bytes to fresh
  native memory and returns that address.
\<close>

record copying_runtime =
  managed :: "jobject \<rightharpoonup> jbyte list"
  native :: "ptr \<Rightarrow> jbyte"
  copies :: "(jobject \<times> ptr) list"
  next_free :: ptr
  misused :: bool

text \<open>Native memory with \<open>bytes\<close> stored from address \<open>buf\<close> on.\<close>

definition blit :: "jbyte list \<Rightarrow> ptr \<Rightarrow> (ptr \<Rightarrow> jbyte) \<Rightarrow> ptr \<Rightarrow> jbyte" where
  "blit bytes buf m =
     (\<lambda>a. if buf \<le> a \<and> a < buf + length bytes then bytes ! (a - buf) else m a)"

text \<open>The two release modes of \<open>jni.h\<close> other than 0.\<close>

definition JNI_COMMIT :: jint where
  "JNI_COMMIT = 1"

definition JNI_ABORT :: jint where
  "JNI_ABORT = 2"

text \<open>
  Modelled from the spec: the pin primitive of the copying runtime. A valid handle yields
  the address of a fresh copy of the array and one more outstanding pin; an invalid handle
  yields the null pointer. A non-null \<open>isCopy\<close> is set to true.
\<close>

definition pin_copy :: "jobject \<Rightarrow> ptr \<Rightarrow> copying_runtime \<Rightarrow> ptr \<times> copying_runtime" where
  "pin_copy arr isCopy j =
     (case managed j arr of
        None \<Rightarrow> (0, j)
      | Some bytes \<Rightarrow>
          (next_free j,
           j\<lparr>native := blit bytes (next_free j)
                         (if isCopy = 0 then native j else (native j)(isCopy := 1)),
             copies := (arr, next_free j) # copies j,
             next_free := next_free j + length bytes\<rparr>))"

text \<open>
  Modelled from the spec: the unpin primitive of the copying runtime. Given an array and
  the pointer of one of its outstanding pins, it copies the buffer back into the array
  unless the mode is \<open>JNI_ABORT\<close>, and ends the pin unless the mode is \<open>JNI_COMMIT\<close>;
  anything else is outside the contract.
\<close>

definition unpin_copy :: "jobject \<Rightarrow> ptr \<Rightarrow> jint \<Rightarrow> copying_runtime \<Rightarrow> copying_runtime" where
  "unpin_copy arr carray mode j =
     (case managed j arr of
        None \<Rightarrow> j\<lparr>misused := True\<rparr>
      | Some bytes \<Rightarrow>
          if (arr, carray) \<in> set (copies j)
          then j\<lparr>managed := (managed j)(arr \<mapsto>
                    (if mode = JNI_ABORT then bytes
                     else map (\<lambda>i. native j (carray + i)) [0..<length bytes])),
                 copies := (if mode = JNI_COMMIT then copies j
                            else remove1 (arr, carray) (copies j))\<rparr>
          else j\<lparr>misused := True\<rparr>)"

definition copying_reference_runtime :: "copying_runtime JNIEnv" where
  "copying_reference_runtime =
     \<lparr>GetPrimitiveArrayCritical = pin_copy, ReleasePrimitiveArrayCritical = unpin_copy\<rparr>"

text \<open>Native code reading \<open>n\<close> bytes at a pointer, and storing one byte at an offset from it.\<close>

definition peek_native :: "copying_runtime \<Rightarrow> ptr \<Rightarrow> nat \<Rightarrow> jbyte list" where
  "peek_native j p n = map (\<lambda>i. native j (p + i)) [0..<n]"

definition poke_native :: "ptr \<Rightarrow> nat \<Rightarrow> jbyte \<Rightarrow> copying_runtime \<Rightarrow> copying_runtime" where
  "poke_native p off v j = j\<lparr>native := (native j)(p + off := v)\<rparr>"

text \<open>
  A copying runtime for examples: array 3 holds the pattern, native memory is zero and
  free from address 4096 on, and nothing is pinned.
\<close>

definition jvm1 :: copying_runtime where
  "jvm1 = \<lparr>managed = [3 \<mapsto> pattern], native = (\<lambda>a. 0), copies = [], next_free = 4096,
           misused = False\<rparr>"

section \<open>Properties\<close>

lemmas acquire_def = Java_com_amazon_corretto_benchmark_hyperalloc_CriticalGC_acquire_def
lemmas release_def = Java_com_amazon_corretto_benchmark_hyperalloc_CriticalGC_release_def


subsection \<open>The entry points, one call at a time\<close>

lemma sink_release: "sink (release env klass arr s) = sink s"
  by (simp add: release_def)

lemma sink_acquire:
  "sink (acquire env klass arr s) = fst (GetPrimitiveArrayCritical env arr 0 (jvm s))"
  by (simp add: acquire_def split: prod.split)

lemma sink_run_releases: "sink (run env (releases rels) s) = sink s"
  by (induction rels arbitrary: s) (auto simp: releases_def sink_release)

subsection \<open>The recorded calls\<close>

lemma log_release:
  "snd (jvm (release (logged env) klass arr s)) = snd (jvm s) @ [Release_call arr (sink s) 0]"
  by (simp add: release_def logged_def split: prod.split)

lemma log_acquire:
  "snd (jvm (acquire (logged env) klass arr s)) =
     snd (jvm s) @ [Get_call arr 0 (sink (acquire (logged env) klass arr s))]"
  by (simp add: acquire_def logged_def split: prod.split)

lemma log_run_releases:
  "snd (jvm (run (logged env) (releases rels) s)) =
     snd (jvm s) @ map (\<lambda>(klass, arr). Release_call arr (sink s) 0) rels"
proof (induction rels arbitrary: s)
  case Nil
  then show ?case by (simp add: releases_def)
next
  case (Cons r rels)
  obtain klass arr where r: "r = (klass, arr)" by (cases r)
  have "run (logged env) (releases (r # rels)) s =
        run (logged env) (releases rels) (release (logged env) klass arr s)"
    by (simp add: releases_def r)
  then show ?case
    using Cons.IH [of "release (logged env) klass arr s"]
    by (simp add: log_release sink_release r)
qed

lemma trace_releases:
  "trace env (releases rels) s = map (\<lambda>(klass, arr). Release_call arr (sink s) 0) rels"
  by (simp add: trace_def log_run_releases)

lemma trace_release: "trace env [Release klass arr] s = [Release_call arr (sink s) 0]"
  by (simp add: trace_def log_release)

lemma trace_acquire:
  "trace env [Acquire klass arr] s = [Get_call arr 0 (sink (acquire env klass arr s))]"
  by (simp add: trace_def acquire_def logged_def split: prod.split)

lemma trace_acquire_release:
  "trace env [Acquire klass arr, Release klass' arr'] s =
     [Get_call arr 0 (sink (acquire env klass arr s)),
      Release_call arr' (sink (acquire env klass arr s)) 0]"
  by (simp add: trace_def acquire_def release_def logged_def split: prod.split)

lemma unpin_ptrs_releases:
  "unpin_ptrs (map (\<lambda>(klass, arr). Release_call arr p 0) rels) = replicate (length rels) p"
  by (induction rels) (auto split: prod.split)

text \<open>Recording does not change what the program does.\<close>

lemma unlogged_step: "unlogged (step (logged env) c s) = step env c (unlogged s)"
  by (cases c) (auto simp: unlogged_def acquire_def release_def logged_def split: prod.split)

lemma unlogged_run: "unlogged (run (logged env) cs s) = run env cs (unlogged s)"
  by (induction cs arbitrary: s) (simp_all add: unlogged_step)

subsection \<open>The slot and the pointer passed to the unpin primitive\<close>

lemma last_pin_snoc_Get: "last_pin p (calls @ [Get_call arr isCopy r]) = r"
  by (induction p calls rule: last_pin.induct) simp_all

lemma last_pin_snoc_Release:
  "last_pin p (calls @ [Release_call arr carray mode]) = last_pin p calls"
  by (induction p calls rule: last_pin.induct) simp_all

lemma unpins_match_snoc_Get:
  "unpins_match p (calls @ [Get_call arr isCopy r]) = unpins_match p calls"
  by (induction p calls rule: unpins_match.induct) simp_all

lemma unpins_match_snoc_Release:
  "unpins_match p (calls @ [Release_call arr carray mode]) =
     (unpins_match p calls \<and> carray = last_pin p calls)"
  by (induction p calls rule: unpins_match.induct) auto

lemma unpins_match_ptrs:
  "unpins_match q calls \<Longrightarrow> set (unpin_ptrs calls) \<subseteq> insert q (set (pin_results calls))"
  by (induction q calls rule: unpins_match.induct) auto

lemma slot_tracks_log_step:
  assumes "slot_tracks_log p s"
  shows "slot_tracks_log p (step (logged env) c s)"
proof (cases c)
  case (Acquire klass arr)
  then show ?thesis
    using assms
    by (simp add: slot_tracks_log_def log_acquire unpins_match_snoc_Get last_pin_snoc_Get)
next
  case (Release klass arr)
  then show ?thesis
    using assms
    by (simp add: slot_tracks_log_def log_release sink_release unpins_match_snoc_Release
        last_pin_snoc_Release)
qed

lemma slot_tracks_log_run:
  "slot_tracks_log p s \<Longrightarrow> slot_tracks_log p (run (logged env) cs s)"
  by (induction cs arbitrary: s) (simp_all add: slot_tracks_log_step)

lemma slot_tracks_log_trace:
  "slot_tracks_log (sink s) (run (logged env) cs \<lparr>sink = sink s, jvm = (jvm s, [])\<rparr>)"
  by (rule slot_tracks_log_run) (simp add: slot_tracks_log_def)

lemma unpins_match_trace: "unpins_match (sink s) (trace env cs s)"
  using slot_tracks_log_trace [of s env cs] by (simp add: slot_tracks_log_def trace_def)

lemma sink_run_last_pin: "sink (run env cs s) = last_pin (sink s) (trace env cs s)"
proof -
  let ?t = "run (logged env) cs \<lparr>sink = sink s, jvm = (jvm s, [])\<rparr>"
  have start: "unlogged \<lparr>sink = sink s, jvm = (jvm s, [])\<rparr> = s"
    by (simp add: unlogged_def)
  have "sink (run env cs s) = sink (unlogged ?t)"
    by (simp only: unlogged_run start)
  also have "\<dots> = sink ?t"
    by (simp add: unlogged_def)
  also have "\<dots> = last_pin (sink s) (snd (jvm ?t))"
    using slot_tracks_log_trace [of s env cs] by (simp add: slot_tracks_log_def)
  finally show ?thesis
    by (simp add: trace_def)
qed

subsection \<open>The reference runtime\<close>

lemma pin_valid:
  "arrays j arr = Some (base, len) \<Longrightarrow>
     pin arr isCopy j = (base, j\<lparr>pinned := (arr, base) # pinned j\<rparr>)"
  by (simp add: pin_def)

lemma acquire_reference_valid:
  assumes "arrays (jvm s) arr = Some (base, len)"
  shows "acquire reference_runtime klass arr s =
           \<lparr>sink = base, jvm = (jvm s)\<lparr>pinned := (arr, base) # pinned (jvm s)\<rparr>\<rparr>"
  using assms by (simp add: acquire_def reference_runtime_def pin_valid)

lemma release_reference_pinned:
  assumes "(arr, sink s) \<in> set (pinned (jvm s))"
  shows "release reference_runtime klass arr s =
           \<lparr>sink = sink s, jvm = (jvm s)\<lparr>pinned := remove1 (arr, sink s) (pinned (jvm s))\<rparr>\<rparr>"
  using assms by (simp add: release_def reference_runtime_def unpin_def)

lemma acquire_release_reference:
  assumes "arrays (jvm s) arr = Some (base, len)"
  shows "release reference_runtime klass' arr (acquire reference_runtime klass arr s) =
           \<lparr>sink = base, jvm = jvm s\<rparr>"
  using assms by (simp add: acquire_reference_valid release_reference_pinned)

lemma pinned_release_none:
  "pinned (jvm s) = [] \<Longrightarrow> pinned (jvm (release reference_runtime klass arr s)) = []"
  by (simp add: release_def reference_runtime_def unpin_def)

lemma pinned_run_releases_none:
  "pinned (jvm s) = [] \<Longrightarrow> pinned (jvm (run reference_runtime (releases rels) s)) = []"
  by (induction rels arbitrary: s) (auto simp: releases_def pinned_release_none)

lemma map_upd_first:
  "map (\<lambda>i. (m(base + 0 := v)) (base + i)) [0..<n] = (map (\<lambda>i. m (base + i)) [0..<n])[0 := v]"
  by (rule nth_equalityI) (auto simp: nth_list_update)

lemma contents_jvm0: "contents jvm0 3 = Some pattern"
  by (simp add: contents_def jvm0_def pattern_def upt_rec)

text \<open>
  A pin whose pointer is not the one in the slot stays outstanding whatever the caller
  releases afterwards: each release hands the runtime the slot's pointer.
\<close>

lemma other_pin_survives_release:
  assumes "(arr0, p0) \<in> set (pinned (jvm s))" and "p0 \<noteq> sink s"
  shows "(arr0, p0) \<in> set (pinned (jvm (release reference_runtime klass arr s)))"
  using assms by (simp add: release_def reference_runtime_def unpin_def)

lemma other_pin_survives_releases:
  assumes "(arr0, p0) \<in> set (pinned (jvm s))" and "p0 \<noteq> sink s"
  shows "(arr0, p0) \<in> set (pinned (jvm (run reference_runtime (releases rels) s)))"
  using assms
proof (induction rels arbitrary: s)
  case Nil
  then show ?case by (simp add: releases_def)
next
  case (Cons r rels)
  obtain klass arr where r: "r = (klass, arr)" by (cases r)
  have "(arr0, p0) \<in> set (pinned (jvm (release reference_runtime klass arr s)))"
    using Cons.prems by (rule other_pin_survives_release)
  moreover have "p0 \<noteq> sink (release reference_runtime klass arr s)"
    using Cons.prems(2) by (simp add: sink_release)
  ultimately have
    "(arr0, p0) \<in> set (pinned (jvm (run reference_runtime (releases rels)
        (release reference_runtime klass arr s))))"
    by (rule Cons.IH)
  then show ?case by (simp add: releases_def r)
qed

subsection \<open>The copying runtime\<close>

lemma blit_read: "map (\<lambda>i. blit bytes buf m (buf + i)) [0..<length bytes] = bytes"
  by (rule nth_equalityI) (simp_all add: blit_def)

lemma acquire_copying_valid:
  assumes "managed (jvm s) arr = Some bytes"
  shows "acquire copying_reference_runtime klass arr s =
           \<lparr>sink = next_free (jvm s),
            jvm = (jvm s)\<lparr>native := blit bytes (next_free (jvm s)) (native (jvm s)),
                          copies := (arr, next_free (jvm s)) # copies (jvm s),
                          next_free := next_free (jvm s) + length bytes\<rparr>\<rparr>"
  using assms by (simp add: acquire_def copying_reference_runtime_def pin_copy_def)

lemma release_copying_pinned:
  assumes "managed (jvm s) arr = Some bytes" and "(arr, sink s) \<in> set (copies (jvm s))"
  shows "managed (jvm (release copying_reference_runtime klass arr s)) arr =
           Some (map (\<lambda>i. native (jvm s) (sink s + i)) [0..<length bytes])"
  using assms
  by (simp add: release_def copying_reference_runtime_def unpin_copy_def JNI_ABORT_def)

text \<open>
  On the copying runtime the bytes at the stored pointer are the array's, and a byte stored
  there reaches the array when release is called.
\<close>

lemma write_committed_by_release:
  assumes "managed (jvm c) H = Some pat" and "length pat = 16"
  shows "peek_native (jvm (acquire copying_reference_runtime klass H c))
              (sink (acquire copying_reference_runtime klass H c)) 16 = pat \<and>
         managed (jvm (release copying_reference_runtime klass' H
            ((acquire copying_reference_runtime klass H c)
               \<lparr>jvm := poke_native (sink (acquire copying_reference_runtime klass H c)) 0 v
                         (jvm (acquire copying_reference_runtime klass H c))\<rparr>))) H
           = Some (pat[0 := v])"
proof -
  let ?s1 = "acquire copying_reference_runtime klass H c"
  let ?s2 = "?s1\<lparr>jvm := poke_native (sink ?s1) 0 v (jvm ?s1)\<rparr>"
  let ?buf = "next_free (jvm c)"
  let ?m = "blit pat ?buf (native (jvm c))"
  note s1 = acquire_copying_valid [OF assms(1), of klass]
  have copy: "map (\<lambda>i. ?m (?buf + i)) [0..<16] = pat"
    using blit_read [of pat ?buf "native (jvm c)"] by (simp add: assms(2))
  have read: "peek_native (jvm ?s1) (sink ?s1) 16 = pat"
    by (simp add: s1 peek_native_def copy)
  have valid: "managed (jvm ?s2) H = Some pat"
    by (simp add: s1 poke_native_def assms(1))
  have pinned: "(H, sink ?s2) \<in> set (copies (jvm ?s2))"
    by (simp add: s1 poke_native_def)
  have "managed (jvm (release copying_reference_runtime klass' H ?s2)) H =
        Some (map (\<lambda>i. native (jvm ?s2) (sink ?s2 + i)) [0..<length pat])"
    using valid pinned by (rule release_copying_pinned)
  also have "map (\<lambda>i. native (jvm ?s2) (sink ?s2 + i)) [0..<length pat] =
        map (\<lambda>i. (?m(?buf + 0 := v)) (?buf + i)) [0..<16]"
    by (simp add: s1 poke_native_def assms(2))
  also have "\<dots> = pat[0 := v]"
    by (simp only: map_upd_first copy)
  finally show ?thesis
    using read by blast
qed

section \<open>The claims\<close>

text \<open>
  Claim C1. For every valid array handle \<open>H\<close>, \<open>acquire(H)\<close> followed immediately by
  \<open>release(H)\<close> leaves the shim in the Unpinned state, and the contents of the array are
  unchanged. On the reference runtime, started Unpinned: the shim is Pinned after the
  acquire and Unpinned after the release, the array reads as before, and the whole runtime
  state is as before. The slot keeps the pointer it was given.
\<close>

theorem acquire_release_returns_to_unpinned:
  assumes "arrays (jvm s) H = Some (base, len)" and "shim_state s = Unpinned"
  shows "shim_state (acquire reference_runtime klass H s) = Pinned \<and>
         shim_state (release reference_runtime klass' H (acquire reference_runtime klass H s))
           = Unpinned \<and>
         contents (jvm (release reference_runtime klass' H (acquire reference_runtime klass H s))) H
           = contents (jvm s) H \<and>
         release reference_runtime klass' H (acquire reference_runtime klass H s)
           = \<lparr>sink = base, jvm = jvm s\<rparr>"
proof -
  have after: "release reference_runtime klass' H (acquire reference_runtime klass H s) =
      \<lparr>sink = base, jvm = jvm s\<rparr>"
    using assms(1) by (rule acquire_release_reference)
  have during: "shim_state (acquire reference_runtime klass H s) = Pinned"
    by (simp add: acquire_reference_valid [OF assms(1)] shim_state_def)
  show ?thesis
    using assms(2) during by (simp add: after shim_state_def)
qed

text \<open>The cycle on array 3 of the example runtime.\<close>

theorem acquire_release_returns_to_unpinned_witness:
  "arrays (jvm (initial jvm0)) 3 = Some (4096, 16) \<and>
   shim_state (initial jvm0) = Unpinned \<and>
   shim_state (acquire reference_runtime 7 3 (initial jvm0)) = Pinned \<and>
   shim_state (release reference_runtime 7 3 (acquire reference_runtime 7 3 (initial jvm0)))
     = Unpinned \<and>
   contents (jvm (release reference_runtime 7 3 (acquire reference_runtime 7 3 (initial jvm0)))) 3
     = Some pattern \<and>
   sink (release reference_runtime 7 3 (acquire reference_runtime 7 3 (initial jvm0))) = 4096"
proof -
  have valid: "arrays (jvm (initial jvm0)) 3 = Some (4096, 16)"
    by (simp add: initial_def jvm0_def)
  have unpinned: "shim_state (initial jvm0) = Unpinned"
    by (simp add: initial_def jvm0_def shim_state_def)
  have before: "contents (jvm (initial jvm0)) 3 = Some pattern"
    by (simp add: initial_def contents_jvm0)
  note cycle = acquire_release_returns_to_unpinned [OF valid unpinned, of 7 7]
  note during = cycle [THEN conjunct1]
  note after = cycle [THEN conjunct2, THEN conjunct1]
  note same = cycle [THEN conjunct2, THEN conjunct2, THEN conjunct1]
  note state = cycle [THEN conjunct2, THEN conjunct2, THEN conjunct2]
  have bytes: "contents (jvm (release reference_runtime 7 3
      (acquire reference_runtime 7 3 (initial jvm0)))) 3 = Some pattern"
    by (simp only: same before)
  have slot: "sink (release reference_runtime 7 3
      (acquire reference_runtime 7 3 (initial jvm0))) = 4096"
    by (simp add: state)
  from valid unpinned during after bytes slot show ?thesis
    by blast
qed

text \<open>
  Claim C2. The pointer that \<open>release\<close> passes to the runtime's unpin primitive is the
  pointer stored in the slot by the preceding \<open>acquire\<close>. For every function table and
  every caller, each recorded unpin call carries the pointer returned by the latest pin
  call before it (the slot's starting value when there is none); and an acquire followed
  by a release makes exactly the two calls, the second with the pointer the first stored.
\<close>

theorem release_passes_stored_pointer:
  "unpins_match (sink s) (trace env cs s) \<and>
   trace env [Acquire klass arr, Release klass' arr'] s =
     [Get_call arr 0 (sink (acquire env klass arr s)),
      Release_call arr' (sink (acquire env klass arr s)) 0]"
  by (simp add: unpins_match_trace trace_acquire_release)

text \<open>
  Claim C3 says that a release before any acquire is treated as the detectable error
  UnbalancedRelease and no unpin is performed. It is not: from the initial state, release
  calls the unpin primitive for the array with the null pointer, and the reference runtime
  is then outside its contract.
\<close>

theorem release_before_acquire_not_detected:
  "trace reference_runtime [Release 7 3] (initial jvm0) = [Release_call 3 0 0] \<and>
   undefined_behaviour (jvm (release reference_runtime 7 3 (initial jvm0))) = True"
  by (simp add: trace_release initial_def release_def reference_runtime_def unpin_def jvm0_def)

text \<open>
  Claim C3, as the code has it. Every release made before any acquire calls the runtime's
  unpin primitive with the array, the null pointer (the slot's initial value) and mode 0;
  the shim detects and reports nothing.
\<close>

theorem release_before_acquire_unpins_null:
  "trace env (releases rels) (initial j) = map (\<lambda>(klass, arr). Release_call arr 0 0) rels"
  by (simp add: trace_releases initial_def)

text \<open>
  Claim C4. \<open>acquire(array)\<close> obtains a pointer from the runtime's pin primitive and stores
  it in the slot; it returns no value, and the slot is all of the shim's state it changes.
  The state after acquire is the slot holding the primitive's result, with the runtime as
  the primitive left it; the one call made is the pin primitive on the array with a null
  \<open>isCopy\<close>.
\<close>

theorem acquire_stores_pin_result:
  "acquire env klass arr s =
     \<lparr>sink = fst (GetPrimitiveArrayCritical env arr 0 (jvm s)),
      jvm = snd (GetPrimitiveArrayCritical env arr 0 (jvm s))\<rparr> \<and>
   trace env [Acquire klass arr] s = [Get_call arr 0 (sink (acquire env klass arr s))]"
  by (simp add: trace_acquire) (simp add: acquire_def split: prod.split)

text \<open>
  Claim C5 says that acquire fails with PinFailure, signalled to the caller, when the
  handle is invalid, rather than storing the null pointer. It does store it: with array 3
  pinned and 4096 in the slot, acquire on the invalid handle 99 puts null in the slot, and
  the next release passes null to the unpin primitive.
\<close>

theorem acquire_failure_not_signalled:
  "sink (acquire reference_runtime 7 3 (initial jvm0)) = 4096 \<and>
   sink (acquire reference_runtime 7 99 (acquire reference_runtime 7 3 (initial jvm0))) = 0 \<and>
   trace reference_runtime [Acquire 7 99, Release 7 99]
     (acquire reference_runtime 7 3 (initial jvm0)) = [Get_call 99 0 0, Release_call 99 0 0]"
  by (simp add: trace_def logged_def initial_def acquire_def release_def reference_runtime_def
      pin_def unpin_def jvm0_def)

text \<open>
  Claim C5, as the code has it. When the runtime's pin primitive returns the null pointer,
  acquire stores null in the slot and returns as usual; nothing is signalled to the
  caller, and a following release hands null to the unpin primitive.
\<close>

theorem acquire_stores_null_on_failure:
  assumes "GetPrimitiveArrayCritical env arr 0 (jvm s) = (0, j')"
  shows "acquire env klass arr s = \<lparr>sink = 0, jvm = j'\<rparr> \<and>
         trace env [Acquire klass arr, Release klass' arr'] s =
           [Get_call arr 0 0, Release_call arr' 0 0]"
  using assms by (simp add: trace_acquire_release) (simp add: acquire_def)

text \<open>The invalid handle 99 on the example runtime.\<close>

theorem acquire_stores_null_on_failure_witness:
  "GetPrimitiveArrayCritical reference_runtime 99 0 (jvm (initial jvm0)) = (0, jvm0) \<and>
   sink (acquire reference_runtime 7 99 (initial jvm0)) = 0 \<and>
   trace reference_runtime [Acquire 7 99, Release 7 99] (initial jvm0) =
     [Get_call 99 0 0, Release_call 99 0 0]"
proof -
  have fails: "GetPrimitiveArrayCritical reference_runtime 99 0 (jvm (initial jvm0)) = (0, jvm0)"
    by (simp add: reference_runtime_def pin_def initial_def jvm0_def)
  show ?thesis
    using acquire_stores_null_on_failure [OF fails, of 7 7 99] fails by simp
qed

text \<open>
  Claim C6 says that an acquire made while Pinned orphans the prior pin: it is never
  released through the slot. When the second acquire returns the pointer of the first, it
  is: with array 3 acquired twice, two releases pass 4096 twice, and the runtime ends
  with no pin outstanding and no misuse.
\<close>

theorem prior_pin_released_through_slot:
  "shim_state (run reference_runtime [Acquire 7 3] (initial jvm0)) = Pinned \<and>
   sink (run reference_runtime [Acquire 7 3] (initial jvm0)) = 4096 \<and>
   sink (run reference_runtime [Acquire 7 3, Acquire 7 3] (initial jvm0)) = 4096 \<and>
   pinned (jvm (run reference_runtime [Acquire 7 3, Acquire 7 3] (initial jvm0)))
     = [(3, 4096), (3, 4096)] \<and>
   unpin_ptrs (trace reference_runtime [Release 7 3, Release 7 3]
      (run reference_runtime [Acquire 7 3, Acquire 7 3] (initial jvm0))) = [4096, 4096] \<and>
   pinned (jvm (run reference_runtime [Acquire 7 3, Acquire 7 3, Release 7 3, Release 7 3]
      (initial jvm0))) = [] \<and>
   undefined_behaviour (jvm (run reference_runtime
      [Acquire 7 3, Acquire 7 3, Release 7 3, Release 7 3] (initial jvm0))) = False"
  by (simp add: trace_def logged_def initial_def acquire_def release_def reference_runtime_def
      pin_def unpin_def shim_state_def jvm0_def)

text \<open>
  Claim C6, as the code has it. An acquire, in any state, overwrites the slot with the new
  pointer. Every release up to the next acquire passes the new pointer to the unpin
  primitive, and whatever the caller does afterwards every unpin carries the new pointer
  or one returned by a later acquire. So the pointer held before is released through the
  slot only if an acquire returns it again; when the new pointer differs, the releases up
  to the next acquire never pass it.
\<close>

theorem acquire_while_pinned_overwrites:
  assumes "GetPrimitiveArrayCritical env arr 0 (jvm s) = (p, j')"
  shows "acquire env klass arr s = \<lparr>sink = p, jvm = j'\<rparr> \<and>
         unpin_ptrs (trace env (releases rels) (acquire env klass arr s))
           = replicate (length rels) p \<and>
         set (unpin_ptrs (trace env cs (acquire env klass arr s)))
           \<subseteq> insert p (set (pin_results (trace env cs (acquire env klass arr s)))) \<and>
         (sink s \<noteq> p \<longrightarrow>
            sink s \<notin> set (unpin_ptrs (trace env (releases rels) (acquire env klass arr s))))"
proof -
  have stored: "acquire env klass arr s = \<lparr>sink = p, jvm = j'\<rparr>"
    using assms by (simp add: acquire_def)
  have until: "unpin_ptrs (trace env (releases rels) (acquire env klass arr s))
          = replicate (length rels) p"
    by (simp add: trace_releases unpin_ptrs_releases stored)
  have "unpins_match (sink (acquire env klass arr s)) (trace env cs (acquire env klass arr s))"
    by (rule unpins_match_trace)
  then have "set (unpin_ptrs (trace env cs (acquire env klass arr s)))
      \<subseteq> insert (sink (acquire env klass arr s))
          (set (pin_results (trace env cs (acquire env klass arr s))))"
    by (rule unpins_match_ptrs)
  moreover have "sink (acquire env klass arr s) = p"
    by (simp add: stored)
  ultimately have later: "set (unpin_ptrs (trace env cs (acquire env klass arr s)))
      \<subseteq> insert p (set (pin_results (trace env cs (acquire env klass arr s))))"
    by (simp only:)
  from stored until later show ?thesis
    by auto
qed

text \<open>Array 5 acquired while array 3 is pinned.\<close>

theorem acquire_while_pinned_overwrites_witness:
  "shim_state (acquire reference_runtime 7 3 (initial jvm0)) = Pinned \<and>
   sink (acquire reference_runtime 7 3 (initial jvm0)) = 4096 \<and>
   sink (acquire reference_runtime 7 5 (acquire reference_runtime 7 3 (initial jvm0))) = 8192 \<and>
   unpin_ptrs (trace reference_runtime (releases [(7, 5), (7, 3)])
     (acquire reference_runtime 7 5 (acquire reference_runtime 7 3 (initial jvm0))))
     = [8192, 8192] \<and>
   set (unpin_ptrs (trace reference_runtime [Release 7 5, Acquire 7 3, Release 7 3]
     (acquire reference_runtime 7 5 (acquire reference_runtime 7 3 (initial jvm0)))))
     \<subseteq> insert 8192 (set (pin_results (trace reference_runtime
         [Release 7 5, Acquire 7 3, Release 7 3]
         (acquire reference_runtime 7 5 (acquire reference_runtime 7 3 (initial jvm0)))))) \<and>
   4096 \<notin> set (unpin_ptrs (trace reference_runtime (releases [(7, 5), (7, 3)])
     (acquire reference_runtime 7 5 (acquire reference_runtime 7 3 (initial jvm0)))))"
proof -
  let ?s = "acquire reference_runtime 7 3 (initial jvm0)"
  have state: "shim_state ?s = Pinned"
    by (simp add: shim_state_def acquire_def reference_runtime_def pin_def initial_def jvm0_def)
  have old: "sink ?s = 4096"
    by (simp add: acquire_def reference_runtime_def pin_def initial_def jvm0_def)
  have second: "GetPrimitiveArrayCritical reference_runtime 5 0 (jvm ?s) =
      (8192, (jvm ?s)\<lparr>pinned := (5, 8192) # pinned (jvm ?s)\<rparr>)"
    by (simp add: acquire_def reference_runtime_def pin_def initial_def jvm0_def)
  note twice = acquire_while_pinned_overwrites
    [OF second, of 7 "[(7, 5), (7, 3)]" "[Release 7 5, Acquire 7 3, Release 7 3]"]
  note stored = twice [THEN conjunct1]
  note passed = twice [THEN conjunct2, THEN conjunct1]
  note later = twice [THEN conjunct2, THEN conjunct2, THEN conjunct1]
  note orphan = twice [THEN conjunct2, THEN conjunct2, THEN conjunct2]
  have new: "sink (acquire reference_runtime 7 5 ?s) = 8192"
    by (simp add: stored)
  have two: "replicate (length [(7::nat, 5::nat), (7, 3)]) (8192::nat) = [8192, 8192]"
    by (simp add: numeral_2_eq_2)
  have ptrs: "unpin_ptrs (trace reference_runtime (releases [(7, 5), (7, 3)])
      (acquire reference_runtime 7 5 ?s)) = [8192, 8192]"
    by (simp only: passed two)
  have "sink ?s \<noteq> 8192"
    by (simp add: old)
  with orphan have "sink ?s \<notin> set (unpin_ptrs (trace reference_runtime
      (releases [(7, 5), (7, 3)]) (acquire reference_runtime 7 5 ?s)))"
    by blast
  then have gone: "4096 \<notin> set (unpin_ptrs (trace reference_runtime
      (releases [(7, 5), (7, 3)]) (acquire reference_runtime 7 5 ?s)))"
    by (simp only: old simp_thms)
  from state old new ptrs later gone show ?thesis
    by blast
qed

text \<open>
  Claim C7. \<open>H\<close> wraps a 16-byte buffer holding a pattern: after \<open>acquire(H)\<close> the 16 bytes
  at the stored pointer are the pattern, and after a byte is written at offset 0 through
  that pointer and \<open>release(H)\<close> is called, the array read through its handle shows the
  write. The write is the scenario's own step, a store into the runtime's memory at the
  address in \<open>sink\<close>; the shim's state is not touched by it. On the reference runtime the
  pointer aliases the array. On the copying runtime the array still reads as the pattern
  after the write, and it is the release, with the stored pointer and mode 0, that
  brings the write into the array.
\<close>

theorem write_through_pinned_pointer_visible:
  assumes "arrays (jvm s) H = Some (base, 16)" and "contents (jvm s) H = Some pat"
    and "managed (jvm c) H = Some pat"
  shows "peek (jvm (acquire reference_runtime klass H s))
              (sink (acquire reference_runtime klass H s)) 16 = pat \<and>
         contents (jvm (release reference_runtime klass' H
            ((acquire reference_runtime klass H s)
               \<lparr>jvm := poke (sink (acquire reference_runtime klass H s)) 0 v
                         (jvm (acquire reference_runtime klass H s))\<rparr>))) H
           = Some (pat[0 := v]) \<and>
         peek_native (jvm (acquire copying_reference_runtime klass H c))
              (sink (acquire copying_reference_runtime klass H c)) 16 = pat \<and>
         managed (poke_native (sink (acquire copying_reference_runtime klass H c)) 0 v
                         (jvm (acquire copying_reference_runtime klass H c))) H
           = Some pat \<and>
         managed (jvm (release copying_reference_runtime klass' H
            ((acquire copying_reference_runtime klass H c)
               \<lparr>jvm := poke_native (sink (acquire copying_reference_runtime klass H c)) 0 v
                         (jvm (acquire copying_reference_runtime klass H c))\<rparr>))) H
           = Some (pat[0 := v])"
proof -
  have len: "length pat = 16"
    using assms(1,2) by (auto simp: contents_def)
  let ?s1 = "acquire reference_runtime klass H s"
  let ?s2 = "?s1\<lparr>jvm := poke (sink ?s1) 0 v (jvm ?s1)\<rparr>"
  have s1: "?s1 = \<lparr>sink = base, jvm = (jvm s)\<lparr>pinned := (H, base) # pinned (jvm s)\<rparr>\<rparr>"
    using assms(1) by (rule acquire_reference_valid)
  have pat: "pat = map (\<lambda>i. memory (jvm s) (base + i)) [0..<16]"
    using assms(1,2) by (simp add: contents_def)
  have read: "peek (jvm ?s1) (sink ?s1) 16 = pat"
    by (simp add: s1 peek_def pat)
  have pinned: "(H, sink ?s2) \<in> set (pinned (jvm ?s2))"
    by (simp add: s1 poke_def)
  have "contents (jvm (release reference_runtime klass' H ?s2)) H =
        Some (map (\<lambda>i. ((memory (jvm s))(base + 0 := v)) (base + i)) [0..<16])"
    unfolding release_reference_pinned [OF pinned]
    using assms(1) by (simp add: s1 poke_def contents_def)
  then have direct: "contents (jvm (release reference_runtime klass' H ?s2)) H
      = Some (pat[0 := v])"
    by (simp only: map_upd_first pat [symmetric])
  let ?c1 = "acquire copying_reference_runtime klass H c"
  have pending: "managed (poke_native (sink ?c1) 0 v (jvm ?c1)) H = Some pat"
    by (simp add: acquire_copying_valid [OF assms(3)] poke_native_def assms(3))
  note copied = write_committed_by_release [OF assms(3) len, of klass klass' v]
  from read direct copied [THEN conjunct1] pending copied [THEN conjunct2] show ?thesis
    by blast
qed

text \<open>The scenario on array 3 of the two example runtimes, writing 255.\<close>

theorem write_through_pinned_pointer_visible_witness:
  "arrays (jvm (initial jvm0)) 3 = Some (4096, 16) \<and>
   contents (jvm (initial jvm0)) 3 = Some pattern \<and>
   managed (jvm (initial jvm1)) 3 = Some pattern \<and>
   peek (jvm (acquire reference_runtime 7 3 (initial jvm0)))
        (sink (acquire reference_runtime 7 3 (initial jvm0))) 16 = pattern \<and>
   contents (jvm (release reference_runtime 7 3
      ((acquire reference_runtime 7 3 (initial jvm0))
         \<lparr>jvm := poke (sink (acquire reference_runtime 7 3 (initial jvm0))) 0 255
                   (jvm (acquire reference_runtime 7 3 (initial jvm0)))\<rparr>))) 3
     = Some [255, 2, 3, 4, 5, 6, 7, 8, 9, 10, 11, 12, 13, 14, 15, 16] \<and>
   peek_native (jvm (acquire copying_reference_runtime 7 3 (initial jvm1)))
        (sink (acquire copying_reference_runtime 7 3 (initial jvm1))) 16 = pattern \<and>
   managed (poke_native (sink (acquire copying_reference_runtime 7 3 (initial jvm1))) 0 255
                   (jvm (acquire copying_reference_runtime 7 3 (initial jvm1)))) 3
     = Some pattern \<and>
   managed (jvm (release copying_reference_runtime 7 3
      ((acquire copying_reference_runtime 7 3 (initial jvm1))
         \<lparr>jvm := poke_native (sink (acquire copying_reference_runtime 7 3 (initial jvm1))) 0 255
                   (jvm (acquire copying_reference_runtime 7 3 (initial jvm1)))\<rparr>))) 3
     = Some [255, 2, 3, 4, 5, 6, 7, 8, 9, 10, 11, 12, 13, 14, 15, 16]"
proof -
  have valid: "arrays (jvm (initial jvm0)) 3 = Some (4096, 16)"
    by (simp add: initial_def jvm0_def)
  have before: "contents (jvm (initial jvm0)) 3 = Some pattern"
    by (simp add: initial_def contents_jvm0)
  have held: "managed (jvm (initial jvm1)) 3 = Some pattern"
    by (simp add: initial_def jvm1_def)
  note scenario = write_through_pinned_pointer_visible [OF valid before held, of 7 7 255]
  note read = scenario [THEN conjunct1]
  note direct = scenario [THEN conjunct2, THEN conjunct1]
  note copied = scenario [THEN conjunct2, THEN conjunct2, THEN conjunct1]
  note pending = scenario [THEN conjunct2, THEN conjunct2, THEN conjunct2, THEN conjunct1]
  note committed = scenario [THEN conjunct2, THEN conjunct2, THEN conjunct2, THEN conjunct2]
  have new: "pattern[0 := 255] = [255, 2, 3, 4, 5, 6, 7, 8, 9, 10, 11, 12, 13, 14, 15, 16]"
    by (simp add: pattern_def)
  note direct' = direct [unfolded new]
  note committed' = committed [unfolded new]
  from valid before held read direct' copied pending committed' show ?thesis
    by blast
qed

text \<open>
  Claim C8 says that after every release the slot no longer holds a valid pinned pointer.
  Release never writes the slot: after an acquire and a release of array 3 the slot still
  holds 4096; and after two acquires and one release of array 3 the slot holds 4096 while
  the runtime still has that pin outstanding, with no misuse of the runtime.
\<close>

theorem slot_not_invalidated_by_release:
  "sink (run reference_runtime [Acquire 7 3, Release 7 3] (initial jvm0)) = 4096 \<and>
   sink (run reference_runtime [Acquire 7 3, Acquire 7 3, Release 7 3] (initial jvm0)) = 4096 \<and>
   (3, 4096) \<in> set (pinned (jvm
      (run reference_runtime [Acquire 7 3, Acquire 7 3, Release 7 3] (initial jvm0)))) \<and>
   undefined_behaviour (jvm
      (run reference_runtime [Acquire 7 3, Acquire 7 3, Release 7 3] (initial jvm0))) = False"
  by (simp add: initial_def acquire_def release_def reference_runtime_def pin_def unpin_def
      jvm0_def)

text \<open>
  Claim C8, as the code has it. The slot is set by acquire and read by release, which
  passes its value to the unpin primitive and leaves it as it is: after any calls the slot
  holds the pointer returned by the latest acquire, or its starting value if there was none.
\<close>

theorem slot_holds_latest_pin:
  "sink (acquire env klass arr s) = fst (GetPrimitiveArrayCritical env arr 0 (jvm s)) \<and>
   sink (release env klass arr s) = sink s \<and>
   trace env [Release klass arr] s = [Release_call arr (sink s) 0] \<and>
   sink (run env cs s) = last_pin (sink s) (trace env cs s)"
  by (simp add: sink_acquire sink_release trace_release sink_run_last_pin [symmetric])

text \<open>
  Claim C9. The class token is ignored: two calls of acquire, or of release, that differ
  only in \<open>klass\<close> give the same state and make the same calls into the runtime.
\<close>

theorem klass_ignored:
  "acquire env klass arr s = acquire env klass' arr s \<and>
   release env klass arr s = release env klass' arr s \<and>
   trace env [Acquire klass arr] s = trace env [Acquire klass' arr] s \<and>
   trace env [Release klass arr] s = trace env [Release klass' arr] s"
  by (simp add: acquire_def release_def trace_def)

text \<open>
  Claim C10. Before the first call to acquire the slot holds the null pointer: in the
  initial state and after any releases. On the reference runtime started without pins, the
  shim is Unpinned throughout.
\<close>

theorem slot_null_before_first_acquire:
  "sink (initial j) = 0 \<and>
   sink (run env (releases rels) (initial j)) = 0 \<and>
   (pinned r = [] \<longrightarrow>
      shim_state (run reference_runtime (releases rels) (initial r)) = Unpinned)"
proof -
  have slot0: "sink (initial j) = 0"
    by (simp add: initial_def)
  have slot: "sink (run env (releases rels) (initial j)) = 0"
    by (simp only: sink_run_releases slot0)
  have "shim_state (run reference_runtime (releases rels) (initial r)) = Unpinned"
    if "pinned r = []"
  proof -
    from that have "pinned (jvm (initial r)) = []"
      by (simp add: initial_def)
    then have "pinned (jvm (run reference_runtime (releases rels) (initial r))) = []"
      by (rule pinned_run_releases_none)
    then show ?thesis
      by (simp add: shim_state_def)
  qed
  with slot0 slot show ?thesis
    by blast
qed

text \<open>The example runtime starts without pins; two releases from the initial state.\<close>

theorem slot_null_before_first_acquire_witness:
  "pinned jvm0 = [] \<and>
   sink (initial jvm0) = 0 \<and>
   sink (run reference_runtime (releases [(7, 3), (7, 5)]) (initial jvm0)) = 0 \<and>
   shim_state (run reference_runtime (releases [(7, 3), (7, 5)]) (initial jvm0)) = Unpinned"
proof -
  have none: "pinned jvm0 = []"
    by (simp add: jvm0_def)
  note start = slot_null_before_first_acquire [of jvm0 reference_runtime "[(7, 3), (7, 5)]" jvm0]
  note slot0 = start [THEN conjunct1]
  note slot = start [THEN conjunct2, THEN conjunct1]
  note state = start [THEN conjunct2, THEN conjunct2, THEN mp, OF none]
  from none slot0 slot state show ?thesis
    by blast
qed

end
